theory Spec2Isabelle
  imports Complex_Main
begin

section \<open>Values of the script\<close>

text \<open>
  The script \<^verbatim>\<open>aws/provision-eks-cluster/index.ts\<close> is one linear sequence of resource
  declarations. Its numbers are the numbers of the scripting language, where \<^verbatim>\<open>/\<close> does
  not truncate; they are modelled as reals. The only arithmetic of the script is
  \<^verbatim>\<open>index / 2\<close> on an array index, which is exact; every other number is read from the
  configuration, tested for truthiness and passed on.
\<close>

type_synonym number = real

text \<open>
  \<^verbatim>\<open>v || d\<close> on a value that may be \<^verbatim>\<open>undefined\<close>: the left operand when it is truthy,
  the right one otherwise. \<^verbatim>\<open>undefined\<close>, the number zero and the empty string are falsy.
\<close>

definition or_number :: "number option \<Rightarrow> number \<Rightarrow> number" where
  "or_number v d = (case v of None \<Rightarrow> d | Some x \<Rightarrow> if x = 0 then d else x)"

definition or_string :: "string option \<Rightarrow> string \<Rightarrow> string" where
  "or_string v d = (case v of None \<Rightarrow> d | Some s \<Rightarrow> if s = [] then d else s)"

text \<open>The decimal text of an array index, as a template literal inserts it.\<close>

fun string_of_index :: "nat \<Rightarrow> string" where
  "string_of_index n =
     (if n < 10 then [''0123456789'' ! n]
      else string_of_index (n div 10) @ [''0123456789'' ! (n mod 10)])"

text \<open>
  \<^verbatim>\<open>xs.map((x, index) => f(x, index))\<close> where \<open>f\<close> declares a resource: the elements are
  visited in order, the index counts from zero, and the declarations are threaded through.
\<close>

fun map_index_from ::
  "nat \<Rightarrow> ('a \<Rightarrow> nat \<Rightarrow> 's \<Rightarrow> 'b \<times> 's) \<Rightarrow> 'a list \<Rightarrow> 's \<Rightarrow> 'b list \<times> 's" where
  "map_index_from i f [] s = ([], s)"
| "map_index_from i f (x # xs) s =
     (case f x i s of (y, s') \<Rightarrow>
        (case map_index_from (Suc i) f xs s' of (ys, s'') \<Rightarrow> (y # ys, s'')))"

definition map_index :: "('a \<Rightarrow> nat \<Rightarrow> 's \<Rightarrow> 'b \<times> 's) \<Rightarrow> 'a list \<Rightarrow> 's \<Rightarrow> 'b list \<times> 's" where
  "map_index f xs s = map_index_from 0 f xs s"

text \<open>Object literals whose keys are data (the client configuration, the role policies).\<close>

datatype json = JString string | JArray "json list" | JObject "(string \<times> json) list"

fun field :: "string \<Rightarrow> json \<Rightarrow> json option" where
  "field k (JObject kvs) = map_of kvs k"
| "field k (JString s) = None"
| "field k (JArray xs) = None"

fun elements :: "json \<Rightarrow> json list option" where
  "elements (JArray xs) = Some xs"
| "elements (JString s) = None"
| "elements (JObject kvs) = None"

text \<open>The entries of the list stored under a key, and the value at the end of a path of keys.\<close>

definition entries :: "string \<Rightarrow> json \<Rightarrow> json list option" where
  "entries k doc = Option.bind (field k doc) elements"

fun at_path :: "string list \<Rightarrow> json \<Rightarrow> json option" where
  "at_path [] j = Some j"
| "at_path (k # ks) j = Option.bind (field k j) (at_path ks)"

section \<open>Configuration\<close>

text \<open>
  The configuration object of the provisioning SDK is a parameter of the script: \<open>get\<close>
  gives the text stored under a key and \<open>getNumber\<close> the number stored under it, each
  \<open>None\<close> (\<^verbatim>\<open>undefined\<close>) when the key is absent.
\<close>

record config =
  get :: "string \<Rightarrow> string option"
  getNumber :: "string \<Rightarrow> number option"

definition minClusterSize :: "config \<Rightarrow> number" where
  "minClusterSize config = or_number (getNumber config ''minClusterSize'') 3"

definition maxClusterSize :: "config \<Rightarrow> number" where
  "maxClusterSize config = or_number (getNumber config ''maxClusterSize'') 6"

definition desiredClusterSize :: "config \<Rightarrow> number" where
  "desiredClusterSize config = or_number (getNumber config ''desiredClusterSize'') 3"

definition eksNodeInstanceType :: "config \<Rightarrow> string" where
  "eksNodeInstanceType config = or_string (get config ''eksNodeInstanceType'') ''t3.medium''"

definition vpcNetworkCidr :: "config \<Rightarrow> string" where
  "vpcNetworkCidr config = or_string (get config ''vpcNetworkCidr'') ''10.0.0.0/16''"

section \<open>Resources\<close>

text \<open>
  A property of a declared resource that is known only after provisioning (\<^verbatim>\<open>eksVpc.id\<close>,
  \<^verbatim>\<open>eksCluster.name\<close>) is kept symbolically: the logical name of the resource and the
  name of the property.
\<close>

datatype Output = Attr string string

record vpc_args =
  vpc_tags :: "(string \<times> string) list"
  vpc_cidrBlock :: string

record subnet_args =
  vpcId :: Output
  cidrBlock :: string
  mapPublicIpOnLaunch :: bool
  availabilityZone :: string
  subnet_tags :: "(string \<times> string) list"

text \<open>
  \<open>assumeRolePolicy\<close> holds the document that the script hands to \<^verbatim>\<open>JSON.stringify\<close>.
\<close>

record role_args =
  assumeRolePolicy :: json

record attachment_args =
  role :: Output
  policyArn :: string

record vpc_config =
  vpc_subnetIds :: "Output list"

record cluster_args =
  roleArn :: Output
  vpcConfig :: vpc_config
  version :: string
  cluster_tags :: "(string \<times> string) list"

record scaling_config =
  desiredSize :: number
  maxSize :: number
  minSize :: number

record node_group_args =
  node_group_clusterName :: Output
  nodeRoleArn :: Output
  subnetIds :: "Output list"
  scalingConfig :: scaling_config
  instanceTypes :: "string list"

datatype resource =
    is_Vpc: Vpc (logical_name: string) (the_vpc: vpc_args)
  | is_Subnet: Subnet (logical_name: string) (the_subnet: subnet_args)
  | is_Role: Role (logical_name: string) (the_role: role_args)
  | is_RolePolicyAttachment:
      RolePolicyAttachment (logical_name: string) (the_attachment: attachment_args)
  | is_Cluster: Cluster (logical_name: string) (the_cluster: cluster_args)
  | is_NodeGroup: NodeGroup (logical_name: string) (the_node_group: node_group_args)

text \<open>
  \<^verbatim>\<open>new R(name, args)\<close> adds the resource to the declarations made so far and gives back
  a handle on it, here its logical name.
\<close>

definition declare_resource :: "resource \<Rightarrow> resource list \<Rightarrow> string \<times> resource list" where
  "declare_resource r rs = (logical_name r, rs @ [r])"

definition privateSubnetCidrBlock :: "string list" where
  "privateSubnetCidrBlock = [''10.0.1.0/24'', ''10.0.2.0/24'', ''10.0.3.0/24'']"

definition publicSubnetCidrBlock :: "string list" where
  "publicSubnetCidrBlock = [''10.0.101.0/24'', ''10.0.102.0/24'', ''10.0.103.0/24'']"

text \<open>
  The helper of the script; \<open>eksVpc\<close>, a constant of the enclosing scope in the source, is
  its first argument here. The index is the array index that \<^verbatim>\<open>map\<close> supplies, and
  \<^verbatim>\<open>index / 2 == 0\<close> compares the real quotient with zero.
\<close>

definition createSubnetAndGetID ::
  "string \<Rightarrow> string \<Rightarrow> nat \<Rightarrow> bool \<Rightarrow> resource list \<Rightarrow> Output \<times> resource list" where
  "createSubnetAndGetID eksVpc cidrRange index isPublic rs =
     (case declare_resource
        (Subnet ((if isPublic then ''public'' else ''private'') @ ''-subnet-'' @ string_of_index index)
           \<lparr> vpcId = Attr eksVpc ''id'',
             cidrBlock = cidrRange,
             mapPublicIpOnLaunch = isPublic,
             availabilityZone = (if real index / 2 = 0 then ''us-west-2a'' else ''us-west-2b''),
             subnet_tags = [(''name'', ''my-eks-subnets'')] \<rparr>) rs
      of (subnet, rs') \<Rightarrow> (Attr subnet ''id'', rs'))"

text \<open>The two trust policies, as the object literals of the script.\<close>

definition eksClusterRole_policy :: json where
  "eksClusterRole_policy =
     JObject [
       (''Version'', JString ''2012-10-17''),
       (''Statement'', JArray [
          JObject [
            (''Action'', JString ''sts:AssumeRole''),
            (''Effect'', JString ''Allow''),
            (''Principal'', JObject [(''Service'', JString ''eks.amazonaws.com'')])]])]"

definition workerNodeRole_policy :: json where
  "workerNodeRole_policy =
     JObject [
       (''Version'', JString ''2012-10-17''),
       (''Statement'', JArray [
          JObject [
            (''Action'', JString ''sts:AssumeRole''),
            (''Principal'', JObject [(''Service'', JString ''ec2.amazonaws.com'')]),
            (''Effect'', JString ''Allow'')]])]"

section \<open>The client configuration\<close>

text \<open>
  What the properties of the cluster resolve to once it exists: texts, and for
  \<^verbatim>\<open>certificateAuthority\<close> an object with a \<open>data\<close> field.
\<close>

record certificate_authority =
  data :: string

record resolution =
  text_of :: "Output \<Rightarrow> string"
  authority_of :: "Output \<Rightarrow> certificate_authority"

text \<open>The callback given to \<^verbatim>\<open>apply\<close>: the document built from the three resolved values.\<close>

definition kubeconfig_document :: "string \<Rightarrow> string \<Rightarrow> certificate_authority \<Rightarrow> json" where
  "kubeconfig_document clusterName clusterEndpoint clusterCA =
     JObject [
       (''apiVersion'', JString ''v1''),
       (''clusters'', JArray [
          JObject [
            (''cluster'', JObject [
               (''server'', JString clusterEndpoint),
               (''certificate-authority-data'', JString (data clusterCA))]),
            (''name'', JString ''kubernetes'')]]),
       (''contexts'', JArray [
          JObject [
            (''context'', JObject [(''cluster'', JString ''kubernetes''), (''user'', JString ''aws'')]),
            (''name'', JString ''aws'')]]),
       (''current-context'', JString ''aws''),
       (''kind'', JString ''Config''),
       (''users'', JArray [
          JObject [
            (''name'', JString ''aws''),
            (''user'', JObject [
               (''exec'', JObject [
                  (''apiVersion'', JString ''client.authentication.k8s.io/v1alpha1''),
                  (''command'', JString ''aws''),
                  (''args'', JArray [JString ''eks'', JString ''get-token'',
                                    JString ''--cluster-name'', JString clusterName])])])]])]"

text \<open>
  \<^verbatim>\<open>pulumi.all([eksCluster.name, eksCluster.endpoint, eksCluster.certificateAuthority]).apply(...)\<close>:
  a value that exists once the three properties have resolved, the callback applied to them.
\<close>

definition kubeconfig :: "string \<Rightarrow> resolution \<Rightarrow> json" where
  "kubeconfig eksCluster \<rho> =
     kubeconfig_document
       (text_of \<rho> (Attr eksCluster ''name''))
       (text_of \<rho> (Attr eksCluster ''endpoint''))
       (authority_of \<rho> (Attr eksCluster ''certificateAuthority''))"

section \<open>The script\<close>

datatype exported = ExportedOutput Output | ExportedDocument "resolution \<Rightarrow> json"

record stack =
  resources :: "resource list"
  exports :: "(string \<times> exported) list"

text \<open>
  The script from its first declaration to its exports. Each \<^verbatim>\<open>new\<close> is one step on the
  list of declarations; the steps keep the order of the source.
\<close>

definition program :: "config \<Rightarrow> stack" where
  "program config =
    (case declare_resource
            (Vpc ''eks-vpc''
               \<lparr> vpc_tags = [(''name'', ''my-eks-vpc'')],
                 vpc_cidrBlock = vpcNetworkCidr config \<rparr>) []
     of (eksVpc, s1) \<Rightarrow>
     case map_index (\<lambda>subnet index. createSubnetAndGetID eksVpc subnet index False)
            privateSubnetCidrBlock s1
     of (privateSubnet, s2) \<Rightarrow>
     case map_index (\<lambda>subnet index. createSubnetAndGetID eksVpc subnet index True)
            publicSubnetCidrBlock s2
     of (publicSubnet, s3) \<Rightarrow>
     case declare_resource
            (Role ''eks-cluster-role'' \<lparr> assumeRolePolicy = eksClusterRole_policy \<rparr>) s3
     of (eksClusterRole, s4) \<Rightarrow>
     case declare_resource
            (RolePolicyAttachment ''cluster-role-policy-attachment''
               \<lparr> role = Attr eksClusterRole ''name'',
                 policyArn = ''arn:aws:iam::aws:policy/AmazonEKSClusterPolicy'' \<rparr>) s4
     of (_, s5) \<Rightarrow>
     case declare_resource
            (Cluster ''eks-cluster''
               \<lparr> roleArn = Attr eksClusterRole ''arn'',
                 vpcConfig = \<lparr> vpc_subnetIds = privateSubnet @ publicSubnet \<rparr>,
                 version = ''1.27'',
                 cluster_tags = [(''name'', ''my-eks-cluster'')] \<rparr>) s5
     of (eksCluster, s6) \<Rightarrow>
     case declare_resource
            (Role ''worker-node-role'' \<lparr> assumeRolePolicy = workerNodeRole_policy \<rparr>) s6
     of (workerNodeRole, s7) \<Rightarrow>
     case declare_resource
            (RolePolicyAttachment ''worker-node-policy-attachment''
               \<lparr> role = Attr workerNodeRole ''name'',
                 policyArn = ''arn:aws:iam::aws:policy/AmazonEKSWorkerNodePolicy'' \<rparr>) s7
     of (_, s8) \<Rightarrow>
     case declare_resource
            (RolePolicyAttachment ''cni-policy-attachment''
               \<lparr> role = Attr workerNodeRole ''name'',
                 policyArn = ''arn:aws:iam::aws:policy/AmazonEKS_CNI_Policy'' \<rparr>) s8
     of (_, s9) \<Rightarrow>
     case declare_resource
            (RolePolicyAttachment ''container-registry-policy-attachment''
               \<lparr> role = Attr workerNodeRole ''name'',
                 policyArn = ''arn:aws:iam::aws:policy/AmazonEC2ContainerRegistryReadOnly'' \<rparr>) s9
     of (_, s10) \<Rightarrow>
     case declare_resource
            (NodeGroup ''worker-node-group''
               \<lparr> node_group_clusterName = Attr eksCluster ''name'',
                 nodeRoleArn = Attr workerNodeRole ''arn'',
                 subnetIds = privateSubnet @ publicSubnet,
                 scalingConfig =
                   \<lparr> desiredSize = desiredClusterSize config,
                     maxSize = maxClusterSize config,
                     minSize = minClusterSize config \<rparr>,
                 instanceTypes = [eksNodeInstanceType config] \<rparr>) s10
     of (_, s11) \<Rightarrow>
       \<lparr> resources = s11,
         exports =
           [(''clusterName'', ExportedOutput (Attr eksCluster ''name'')),
            (''clusterArn'', ExportedOutput (Attr eksCluster ''arn'')),
            (''clusterKubeConfig'', ExportedDocument (kubeconfig eksCluster)),
            (''vpcId'', ExportedOutput (Attr eksVpc ''id''))] \<rparr>)"

text \<open>Views of the declarations, by kind and in declaration order.\<close>

definition subnets :: "stack \<Rightarrow> resource list" where
  "subnets st = filter is_Subnet (resources st)"

definition attachments :: "stack \<Rightarrow> resource list" where
  "attachments st = filter is_RolePolicyAttachment (resources st)"

definition clusters :: "stack \<Rightarrow> cluster_args list" where
  "clusters st = map the_cluster (filter is_Cluster (resources st))"

definition node_groups :: "stack \<Rightarrow> node_group_args list" where
  "node_groups st = map the_node_group (filter is_NodeGroup (resources st))"

definition zones :: "resource list \<Rightarrow> string list" where
  "zones rs = map (\<lambda>r. availabilityZone (the_subnet r)) (filter is_Subnet rs)"

text \<open>What a declaration step adds to the declarations made before it.\<close>

definition declared_by :: "(resource list \<Rightarrow> 'a \<times> resource list) \<Rightarrow> resource list \<Rightarrow> resource list" where
  "declared_by step rs = drop (length rs) (snd (step rs))"

section \<open>Address ranges\<close>

text \<open>
  The script treats address ranges as opaque texts. To speak about overlap and containment
  they are read in the usual way: \<^verbatim>\<open>a.b.c.d/n\<close> is the block of \<open>2 ^ (32 - n)\<close>
  addresses that share the first \<open>n\<close> bits of \<^verbatim>\<open>a.b.c.d\<close>, here the pair of its first and
  last address.
\<close>

definition digit_value :: "char \<Rightarrow> nat option" where
  "digit_value c =
     map_of [(CHR ''0'', 0), (CHR ''1'', 1), (CHR ''2'', 2), (CHR ''3'', 3), (CHR ''4'', 4),
             (CHR ''5'', 5), (CHR ''6'', 6), (CHR ''7'', 7), (CHR ''8'', 8), (CHR ''9'', 9)] c"

fun decimal_from :: "nat \<Rightarrow> string \<Rightarrow> nat option" where
  "decimal_from acc [] = Some acc"
| "decimal_from acc (c # cs) =
     (case digit_value c of None \<Rightarrow> None | Some d \<Rightarrow> decimal_from (10 * acc + d) cs)"

definition decimal :: "string \<Rightarrow> nat option" where
  "decimal s = (if s = [] then None else decimal_from 0 s)"

fun split_at :: "char \<Rightarrow> string \<Rightarrow> string list" where
  "split_at sep [] = [[]]"
| "split_at sep (c # cs) =
     (if c = sep then [] # split_at sep cs
      else (case split_at sep cs of [] \<Rightarrow> [[c]] | w # ws \<Rightarrow> (c # w) # ws))"

definition block_of :: "nat list \<Rightarrow> nat \<Rightarrow> (nat \<times> nat) option" where
  "block_of octets n =
     (case octets of
        [a, b, c, d] \<Rightarrow>
          if a < 256 \<and> b < 256 \<and> c < 256 \<and> d < 256 \<and> n \<le> 32
          then let addr = ((a * 256 + b) * 256 + c) * 256 + d;
                   first = addr - addr mod 2 ^ (32 - n)
               in Some (first, first + 2 ^ (32 - n) - 1)
          else None
      | _ \<Rightarrow> None)"

definition cidr_range :: "string \<Rightarrow> (nat \<times> nat) option" where
  "cidr_range s =
     (case split_at CHR ''/'' s of
        [a, p] \<Rightarrow>
          (case those (map decimal (split_at CHR ''.'' a)) of
             None \<Rightarrow> None
           | Some octets \<Rightarrow>
               (case decimal p of None \<Rightarrow> None | Some n \<Rightarrow> block_of octets n))
      | _ \<Rightarrow> None)"

definition cidr_disjoint :: "string \<Rightarrow> string \<Rightarrow> bool" where
  "cidr_disjoint s t =
     (case cidr_range s of
        None \<Rightarrow> False
      | Some x \<Rightarrow>
          (case cidr_range t of
             None \<Rightarrow> False
           | Some y \<Rightarrow> snd x < fst y \<or> snd y < fst x))"

definition cidr_within :: "string \<Rightarrow> string \<Rightarrow> bool" where
  "cidr_within s t =
     (case cidr_range s of
        None \<Rightarrow> False
      | Some x \<Rightarrow>
          (case cidr_range t of
             None \<Rightarrow> False
           | Some y \<Rightarrow> fst y \<le> fst x \<and> snd x \<le> snd y))"

fun pairwise_disjoint :: "string list \<Rightarrow> bool" where
  "pairwise_disjoint [] = True"
| "pairwise_disjoint (s # ss) = (list_all (cidr_disjoint s) ss \<and> pairwise_disjoint ss)"

definition all_within :: "string list \<Rightarrow> string \<Rightarrow> bool" where
  "all_within ss t = list_all (\<lambda>s. cidr_within s t) ss"

section \<open>Example configurations\<close>

text \<open>No key is set.\<close>

definition no_config :: config where
  "no_config = \<lparr> get = map_of [], getNumber = map_of [] \<rparr>"

text \<open>Every key is set to a falsy value: zero, or the empty text.\<close>

definition falsy_config :: config where
  "falsy_config =
     \<lparr> get = map_of [(''eksNodeInstanceType'', []), (''vpcNetworkCidr'', [])],
       getNumber = map_of [(''minClusterSize'', 0), (''maxClusterSize'', 0),
                           (''desiredClusterSize'', 0)] \<rparr>"

text \<open>A consistent sizing whose minimum is zero.\<close>

definition zero_min_config :: config where
  "zero_min_config =
     \<lparr> get = map_of [],
       getNumber = map_of [(''minClusterSize'', 0), (''maxClusterSize'', 4),
                           (''desiredClusterSize'', 2)] \<rparr>"

text \<open>An inconsistent sizing: the minimum above the desired size, the maximum below both.\<close>

definition unordered_config :: config where
  "unordered_config =
     \<lparr> get = map_of [],
       getNumber = map_of [(''minClusterSize'', 5), (''maxClusterSize'', 1),
                           (''desiredClusterSize'', 2)] \<rparr>"

text \<open>A network range other than the default.\<close>

definition other_network_config :: config where
  "other_network_config =
     \<lparr> get = map_of [(''vpcNetworkCidr'', ''192.168.0.0/16'')], getNumber = map_of [] \<rparr>"

section \<open>The declarations of the script, written out\<close>

lemma string_of_index_small [simp]:
  "string_of_index 0 = ''0''" "string_of_index (Suc 0) = ''1''"
  "string_of_index (Suc (Suc 0)) = ''2''"
  by simp_all

lemma privateSubnet_declared:
  "map_index (\<lambda>subnet index. createSubnetAndGetID vpc subnet index False)
     privateSubnetCidrBlock rs =
   ([Attr ''private-subnet-0'' ''id'', Attr ''private-subnet-1'' ''id'',
     Attr ''private-subnet-2'' ''id''],
    rs @
    [Subnet ''private-subnet-0''
       \<lparr> vpcId = Attr vpc ''id'', cidrBlock = ''10.0.1.0/24'', mapPublicIpOnLaunch = False,
         availabilityZone = ''us-west-2a'', subnet_tags = [(''name'', ''my-eks-subnets'')] \<rparr>,
     Subnet ''private-subnet-1''
       \<lparr> vpcId = Attr vpc ''id'', cidrBlock = ''10.0.2.0/24'', mapPublicIpOnLaunch = False,
         availabilityZone = ''us-west-2b'', subnet_tags = [(''name'', ''my-eks-subnets'')] \<rparr>,
     Subnet ''private-subnet-2''
       \<lparr> vpcId = Attr vpc ''id'', cidrBlock = ''10.0.3.0/24'', mapPublicIpOnLaunch = False,
         availabilityZone = ''us-west-2b'', subnet_tags = [(''name'', ''my-eks-subnets'')] \<rparr>])"
  by (simp add: map_index_def privateSubnetCidrBlock_def createSubnetAndGetID_def
        declare_resource_def del: string_of_index.simps)

lemma publicSubnet_declared:
  "map_index (\<lambda>subnet index. createSubnetAndGetID vpc subnet index True)
     publicSubnetCidrBlock rs =
   ([Attr ''public-subnet-0'' ''id'', Attr ''public-subnet-1'' ''id'',
     Attr ''public-subnet-2'' ''id''],
    rs @
    [Subnet ''public-subnet-0''
       \<lparr> vpcId = Attr vpc ''id'', cidrBlock = ''10.0.101.0/24'', mapPublicIpOnLaunch = True,
         availabilityZone = ''us-west-2a'', subnet_tags = [(''name'', ''my-eks-subnets'')] \<rparr>,
     Subnet ''public-subnet-1''
       \<lparr> vpcId = Attr vpc ''id'', cidrBlock = ''10.0.102.0/24'', mapPublicIpOnLaunch = True,
         availabilityZone = ''us-west-2b'', subnet_tags = [(''name'', ''my-eks-subnets'')] \<rparr>,
     Subnet ''public-subnet-2''
       \<lparr> vpcId = Attr vpc ''id'', cidrBlock = ''10.0.103.0/24'', mapPublicIpOnLaunch = True,
         availabilityZone = ''us-west-2b'', subnet_tags = [(''name'', ''my-eks-subnets'')] \<rparr>])"
  by (simp add: map_index_def publicSubnetCidrBlock_def createSubnetAndGetID_def
        declare_resource_def del: string_of_index.simps)

lemma program_resources:
  "resources (program config) =
   [Vpc ''eks-vpc''
      \<lparr> vpc_tags = [(''name'', ''my-eks-vpc'')], vpc_cidrBlock = vpcNetworkCidr config \<rparr>,
    Subnet ''private-subnet-0''
      \<lparr> vpcId = Attr ''eks-vpc'' ''id'', cidrBlock = ''10.0.1.0/24'', mapPublicIpOnLaunch = False,
        availabilityZone = ''us-west-2a'', subnet_tags = [(''name'', ''my-eks-subnets'')] \<rparr>,
    Subnet ''private-subnet-1''
      \<lparr> vpcId = Attr ''eks-vpc'' ''id'', cidrBlock = ''10.0.2.0/24'', mapPublicIpOnLaunch = False,
        availabilityZone = ''us-west-2b'', subnet_tags = [(''name'', ''my-eks-subnets'')] \<rparr>,
    Subnet ''private-subnet-2''
      \<lparr> vpcId = Attr ''eks-vpc'' ''id'', cidrBlock = ''10.0.3.0/24'', mapPublicIpOnLaunch = False,
        availabilityZone = ''us-west-2b'', subnet_tags = [(''name'', ''my-eks-subnets'')] \<rparr>,
    Subnet ''public-subnet-0''
      \<lparr> vpcId = Attr ''eks-vpc'' ''id'', cidrBlock = ''10.0.101.0/24'', mapPublicIpOnLaunch = True,
        availabilityZone = ''us-west-2a'', subnet_tags = [(''name'', ''my-eks-subnets'')] \<rparr>,
    Subnet ''public-subnet-1''
      \<lparr> vpcId = Attr ''eks-vpc'' ''id'', cidrBlock = ''10.0.102.0/24'', mapPublicIpOnLaunch = True,
        availabilityZone = ''us-west-2b'', subnet_tags = [(''name'', ''my-eks-subnets'')] \<rparr>,
    Subnet ''public-subnet-2''
      \<lparr> vpcId = Attr ''eks-vpc'' ''id'', cidrBlock = ''10.0.103.0/24'', mapPublicIpOnLaunch = True,
        availabilityZone = ''us-west-2b'', subnet_tags = [(''name'', ''my-eks-subnets'')] \<rparr>,
    Role ''eks-cluster-role'' \<lparr> assumeRolePolicy = eksClusterRole_policy \<rparr>,
    RolePolicyAttachment ''cluster-role-policy-attachment''
      \<lparr> role = Attr ''eks-cluster-role'' ''name'',
        policyArn = ''arn:aws:iam::aws:policy/AmazonEKSClusterPolicy'' \<rparr>,
    Cluster ''eks-cluster''
      \<lparr> roleArn = Attr ''eks-cluster-role'' ''arn'',
        vpcConfig = \<lparr> vpc_subnetIds =
          [Attr ''private-subnet-0'' ''id'', Attr ''private-subnet-1'' ''id'',
           Attr ''private-subnet-2'' ''id'', Attr ''public-subnet-0'' ''id'',
           Attr ''public-subnet-1'' ''id'', Attr ''public-subnet-2'' ''id''] \<rparr>,
        version = ''1.27'',
        cluster_tags = [(''name'', ''my-eks-cluster'')] \<rparr>,
    Role ''worker-node-role'' \<lparr> assumeRolePolicy = workerNodeRole_policy \<rparr>,
    RolePolicyAttachment ''worker-node-policy-attachment''
      \<lparr> role = Attr ''worker-node-role'' ''name'',
        policyArn = ''arn:aws:iam::aws:policy/AmazonEKSWorkerNodePolicy'' \<rparr>,
    RolePolicyAttachment ''cni-policy-attachment''
      \<lparr> role = Attr ''worker-node-role'' ''name'',
        policyArn = ''arn:aws:iam::aws:policy/AmazonEKS_CNI_Policy'' \<rparr>,
    RolePolicyAttachment ''container-registry-policy-attachment''
      \<lparr> role = Attr ''worker-node-role'' ''name'',
        policyArn = ''arn:aws:iam::aws:policy/AmazonEC2ContainerRegistryReadOnly'' \<rparr>,
    NodeGroup ''worker-node-group''
      \<lparr> node_group_clusterName = Attr ''eks-cluster'' ''name'',
        nodeRoleArn = Attr ''worker-node-role'' ''arn'',
        subnetIds =
          [Attr ''private-subnet-0'' ''id'', Attr ''private-subnet-1'' ''id'',
           Attr ''private-subnet-2'' ''id'', Attr ''public-subnet-0'' ''id'',
           Attr ''public-subnet-1'' ''id'', Attr ''public-subnet-2'' ''id''],
        scalingConfig =
          \<lparr> desiredSize = desiredClusterSize config,
            maxSize = maxClusterSize config,
            minSize = minClusterSize config \<rparr>,
        instanceTypes = [eksNodeInstanceType config] \<rparr>]"
  by (simp add: program_def declare_resource_def privateSubnet_declared publicSubnet_declared)

lemma program_exports:
  "exports (program config) =
     [(''clusterName'', ExportedOutput (Attr ''eks-cluster'' ''name'')),
      (''clusterArn'', ExportedOutput (Attr ''eks-cluster'' ''arn'')),
      (''clusterKubeConfig'', ExportedDocument (kubeconfig ''eks-cluster'')),
      (''vpcId'', ExportedOutput (Attr ''eks-vpc'' ''id''))]"
  by (simp add: program_def declare_resource_def privateSubnet_declared publicSubnet_declared)

section \<open>Availability zones\<close>

text \<open>
  C1 (as amended). The selector \<^verbatim>\<open>index / 2 == 0\<close> of \<open>createSubnetAndGetID\<close> is true for
  index 0 only, since the quotient is not truncated: the subnet declared for an index is
  placed in us-west-2a when the index is 0 and in us-west-2b for every other index.
  Consequently, in each of the private and the public list (indices 0 to 2) the subnet at
  index 0 is assigned us-west-2a and the subnets at indices 1 and 2 are assigned us-west-2b.
\<close>

theorem az_selector_only_index_zero:
  "zones (declared_by (createSubnetAndGetID eksVpc cidrRange index isPublic) rs) =
     [if index = 0 then ''us-west-2a'' else ''us-west-2b'']
   \<and> zones (declared_by
        (map_index (\<lambda>subnet index. createSubnetAndGetID eksVpc subnet index False)
           privateSubnetCidrBlock) rs) = [''us-west-2a'', ''us-west-2b'', ''us-west-2b'']
   \<and> zones (declared_by
        (map_index (\<lambda>subnet index. createSubnetAndGetID eksVpc subnet index True)
           publicSubnetCidrBlock) rs) = [''us-west-2a'', ''us-west-2b'', ''us-west-2b'']"
proof -
  have one: "zones (declared_by (createSubnetAndGetID eksVpc cidrRange index isPublic) rs) =
     [if index = 0 then ''us-west-2a'' else ''us-west-2b'']"
    by (simp add: zones_def declared_by_def createSubnetAndGetID_def declare_resource_def
          del: string_of_index.simps)
  have priv: "zones (declared_by
        (map_index (\<lambda>subnet index. createSubnetAndGetID eksVpc subnet index False)
           privateSubnetCidrBlock) rs) = [''us-west-2a'', ''us-west-2b'', ''us-west-2b'']"
    by (simp add: zones_def declared_by_def privateSubnet_declared)
  have pub: "zones (declared_by
        (map_index (\<lambda>subnet index. createSubnetAndGetID eksVpc subnet index True)
           publicSubnetCidrBlock) rs) = [''us-west-2a'', ''us-west-2b'', ''us-west-2b'']"
    by (simp add: zones_def declared_by_def publicSubnet_declared)
  from one priv pub show ?thesis by blast
qed

text \<open>
  C1 as stated fails: the subnet declared for index 1 is placed in us-west-2b, and the six
  zones of the script are not the pattern a, a, b, a, a, b that a truncating division
  would give.
\<close>

theorem az_index_one_counterexample:
  "zones (declared_by (createSubnetAndGetID ''eks-vpc'' ''10.0.2.0/24'' 1 False) []) =
     [''us-west-2b'']
   \<and> zones (resources (program no_config)) \<noteq>
     [''us-west-2a'', ''us-west-2a'', ''us-west-2b'',
      ''us-west-2a'', ''us-west-2a'', ''us-west-2b'']"
  by (simp add: zones_def declared_by_def createSubnetAndGetID_def declare_resource_def
        program_resources del: string_of_index.simps)

text \<open>
  C8. Whatever the configuration, the six subnets that the script declares are, in order,
  private-subnet-0 in us-west-2a, private-subnet-1 and private-subnet-2 in us-west-2b,
  public-subnet-0 in us-west-2a, public-subnet-1 and public-subnet-2 in us-west-2b; and
  the helper places a subnet in us-west-2a exactly when its index is 0.
\<close>

theorem subnet_zones_of_program:
  "map (\<lambda>r. (logical_name r, availabilityZone (the_subnet r))) (subnets (program config)) =
     [(''private-subnet-0'', ''us-west-2a''), (''private-subnet-1'', ''us-west-2b''),
      (''private-subnet-2'', ''us-west-2b''), (''public-subnet-0'', ''us-west-2a''),
      (''public-subnet-1'', ''us-west-2b''), (''public-subnet-2'', ''us-west-2b'')]
   \<and> (zones (declared_by (createSubnetAndGetID eksVpc cidrRange index isPublic) rs) =
        [''us-west-2a'']) = (index = 0)"
  by (simp add: subnets_def program_resources zones_def declared_by_def
        createSubnetAndGetID_def declare_resource_def del: string_of_index.simps)

section \<open>Sizing and defaults\<close>

text \<open>
  C2 (as amended). The script has no failing branch and compares the three sizes with
  nothing: for every combination of configured sizes that are not zero, ordered or not, the
  node group's scalingConfig holds exactly the configured minimum, desired size and maximum.
\<close>

theorem sizes_passed_unchanged_when_nonzero:
  assumes "getNumber config ''minClusterSize'' = Some a"
    and "getNumber config ''desiredClusterSize'' = Some b"
    and "getNumber config ''maxClusterSize'' = Some c"
    and "a \<noteq> 0" and "b \<noteq> 0" and "c \<noteq> 0"
  shows "map scalingConfig (node_groups (program config)) =
           [\<lparr> desiredSize = b, maxSize = c, minSize = a \<rparr>]"
  using assms
  by (simp add: node_groups_def program_resources minClusterSize_def maxClusterSize_def
        desiredClusterSize_def or_number_def)

text \<open>
  An instance with the minimum above the desired size and the maximum below both: the
  sizes 5, 2, 1 reach the node group as they are.
\<close>

theorem sizes_passed_unchanged_witness:
  "getNumber unordered_config ''minClusterSize'' = Some 5
   \<and> getNumber unordered_config ''desiredClusterSize'' = Some 2
   \<and> getNumber unordered_config ''maxClusterSize'' = Some 1
   \<and> map scalingConfig (node_groups (program unordered_config)) =
        [\<lparr> desiredSize = 2, maxSize = 1, minSize = 5 \<rparr>]"
proof -
  have h1: "getNumber unordered_config ''minClusterSize'' = Some 5"
    by (simp add: unordered_config_def)
  have h2: "getNumber unordered_config ''desiredClusterSize'' = Some 2"
    by (simp add: unordered_config_def)
  have h3: "getNumber unordered_config ''maxClusterSize'' = Some 1"
    by (simp add: unordered_config_def)
  from sizes_passed_unchanged_when_nonzero [OF h1 h2 h3] h1 h2 h3
  show ?thesis by simp
qed

text \<open>
  C2 as stated fails at a configured zero: with minimum 0, desired size 2 and maximum 4
  the node group receives the minimum 3, not 0.
\<close>

theorem zero_min_size_counterexample:
  "getNumber zero_min_config ''minClusterSize'' = Some 0
   \<and> getNumber zero_min_config ''desiredClusterSize'' = Some 2
   \<and> getNumber zero_min_config ''maxClusterSize'' = Some 4
   \<and> map scalingConfig (node_groups (program zero_min_config)) =
        [\<lparr> desiredSize = 2, maxSize = 4, minSize = 3 \<rparr>]"
  by (simp add: zero_min_config_def node_groups_def program_resources minClusterSize_def
        maxClusterSize_def desiredClusterSize_def or_number_def)

text \<open>
  C6. When a configuration key is absent its default is used, in the constant and in the
  resource that receives it: minClusterSize 3, maxClusterSize 6, desiredClusterSize 3,
  eksNodeInstanceType t3.medium, vpcNetworkCidr 10.0.0.0/16.
\<close>

theorem defaults_when_absent:
  "(getNumber config ''minClusterSize'' = None \<longrightarrow>
      minClusterSize config = 3
      \<and> map (\<lambda>g. minSize (scalingConfig g)) (node_groups (program config)) = [3])
   \<and> (getNumber config ''maxClusterSize'' = None \<longrightarrow>
      maxClusterSize config = 6
      \<and> map (\<lambda>g. maxSize (scalingConfig g)) (node_groups (program config)) = [6])
   \<and> (getNumber config ''desiredClusterSize'' = None \<longrightarrow>
      desiredClusterSize config = 3
      \<and> map (\<lambda>g. desiredSize (scalingConfig g)) (node_groups (program config)) = [3])
   \<and> (get config ''eksNodeInstanceType'' = None \<longrightarrow>
      eksNodeInstanceType config = ''t3.medium''
      \<and> map instanceTypes (node_groups (program config)) = [[''t3.medium'']])
   \<and> (get config ''vpcNetworkCidr'' = None \<longrightarrow>
      vpcNetworkCidr config = ''10.0.0.0/16''
      \<and> map (\<lambda>r. vpc_cidrBlock (the_vpc r)) (filter is_Vpc (resources (program config))) =
          [''10.0.0.0/16''])"
  by (simp add: node_groups_def program_resources minClusterSize_def maxClusterSize_def
        desiredClusterSize_def eksNodeInstanceType_def vpcNetworkCidr_def or_number_def
        or_string_def)

text \<open>The configuration with no key set satisfies all five hypotheses.\<close>

theorem defaults_when_absent_witness:
  "getNumber no_config ''minClusterSize'' = None
   \<and> getNumber no_config ''maxClusterSize'' = None
   \<and> getNumber no_config ''desiredClusterSize'' = None
   \<and> get no_config ''eksNodeInstanceType'' = None
   \<and> get no_config ''vpcNetworkCidr'' = None
   \<and> minClusterSize no_config = 3 \<and> maxClusterSize no_config = 6
   \<and> desiredClusterSize no_config = 3
   \<and> eksNodeInstanceType no_config = ''t3.medium''
   \<and> vpcNetworkCidr no_config = ''10.0.0.0/16''
   \<and> map scalingConfig (node_groups (program no_config)) =
        [\<lparr> desiredSize = 3, maxSize = 6, minSize = 3 \<rparr>]"
proof -
  have absent:
    "getNumber no_config ''minClusterSize'' = None"
    "getNumber no_config ''maxClusterSize'' = None"
    "getNumber no_config ''desiredClusterSize'' = None"
    "get no_config ''eksNodeInstanceType'' = None"
    "get no_config ''vpcNetworkCidr'' = None"
    by (simp_all add: no_config_def)
  have groups: "map scalingConfig (node_groups (program no_config)) =
      [\<lparr> desiredSize = desiredClusterSize no_config, maxSize = maxClusterSize no_config,
         minSize = minClusterSize no_config \<rparr>]"
    by (simp add: node_groups_def program_resources)
  from defaults_when_absent [of no_config] absent groups show ?thesis by simp
qed

text \<open>
  C9. A configured value that is falsy is replaced by the default: a size configured as 0
  becomes 3 (minimum), 6 (maximum) or 3 (desired), and an instance type or network range
  configured as the empty text becomes t3.medium or 10.0.0.0/16.
\<close>

theorem falsy_replaced_by_default:
  "(getNumber config ''minClusterSize'' = Some 0 \<longrightarrow>
      minClusterSize config = 3
      \<and> map (\<lambda>g. minSize (scalingConfig g)) (node_groups (program config)) = [3])
   \<and> (getNumber config ''maxClusterSize'' = Some 0 \<longrightarrow>
      maxClusterSize config = 6
      \<and> map (\<lambda>g. maxSize (scalingConfig g)) (node_groups (program config)) = [6])
   \<and> (getNumber config ''desiredClusterSize'' = Some 0 \<longrightarrow>
      desiredClusterSize config = 3
      \<and> map (\<lambda>g. desiredSize (scalingConfig g)) (node_groups (program config)) = [3])
   \<and> (get config ''eksNodeInstanceType'' = Some [] \<longrightarrow>
      eksNodeInstanceType config = ''t3.medium''
      \<and> map instanceTypes (node_groups (program config)) = [[''t3.medium'']])
   \<and> (get config ''vpcNetworkCidr'' = Some [] \<longrightarrow>
      vpcNetworkCidr config = ''10.0.0.0/16''
      \<and> map (\<lambda>r. vpc_cidrBlock (the_vpc r)) (filter is_Vpc (resources (program config))) =
          [''10.0.0.0/16''])"
  by (simp add: node_groups_def program_resources minClusterSize_def maxClusterSize_def
        desiredClusterSize_def eksNodeInstanceType_def vpcNetworkCidr_def or_number_def
        or_string_def)

text \<open>The configuration with every key set to a falsy value satisfies all five hypotheses.\<close>

theorem falsy_replaced_by_default_witness:
  "getNumber falsy_config ''minClusterSize'' = Some 0
   \<and> getNumber falsy_config ''maxClusterSize'' = Some 0
   \<and> getNumber falsy_config ''desiredClusterSize'' = Some 0
   \<and> get falsy_config ''eksNodeInstanceType'' = Some []
   \<and> get falsy_config ''vpcNetworkCidr'' = Some []
   \<and> minClusterSize falsy_config = 3 \<and> maxClusterSize falsy_config = 6
   \<and> desiredClusterSize falsy_config = 3
   \<and> eksNodeInstanceType falsy_config = ''t3.medium''
   \<and> vpcNetworkCidr falsy_config = ''10.0.0.0/16''"
proof -
  have falsy:
    "getNumber falsy_config ''minClusterSize'' = Some 0"
    "getNumber falsy_config ''maxClusterSize'' = Some 0"
    "getNumber falsy_config ''desiredClusterSize'' = Some 0"
    "get falsy_config ''eksNodeInstanceType'' = Some []"
    "get falsy_config ''vpcNetworkCidr'' = Some []"
    by (simp_all add: falsy_config_def)
  from falsy_replaced_by_default [of falsy_config] falsy show ?thesis by simp
qed

section \<open>The client configuration and the exports\<close>

text \<open>
  C3. The document that the script generates and exports as clusterKubeConfig is the
  callback applied to the resolved name, endpoint and certificate authority of the cluster
  eks-cluster. Whatever these three resolve to, that document has exactly one entry under
  clusters, exactly one under contexts, and its current-context is aws, the name of that
  one context; the same holds of the callback at every name, endpoint and
  certificate-authority data.
\<close>

theorem kubeconfig_one_cluster_one_context:
  "map_of (exports (program config)) ''clusterKubeConfig'' =
     Some (ExportedDocument (kubeconfig ''eks-cluster''))
   \<and> kubeconfig ''eks-cluster'' \<rho> =
       kubeconfig_document (text_of \<rho> (Attr ''eks-cluster'' ''name''))
         (text_of \<rho> (Attr ''eks-cluster'' ''endpoint''))
         (authority_of \<rho> (Attr ''eks-cluster'' ''certificateAuthority''))
   \<and> map_option length (entries ''clusters'' (kubeconfig ''eks-cluster'' \<rho>)) = Some 1
   \<and> map_option length (entries ''contexts'' (kubeconfig ''eks-cluster'' \<rho>)) = Some 1
   \<and> field ''current-context'' (kubeconfig ''eks-cluster'' \<rho>) = Some (JString ''aws'')
   \<and> map_option (map (field ''name'')) (entries ''contexts'' (kubeconfig ''eks-cluster'' \<rho>)) =
       Some [field ''current-context'' (kubeconfig ''eks-cluster'' \<rho>)]
   \<and> map_option length
       (entries ''clusters'' (kubeconfig_document clusterName clusterEndpoint clusterCA)) = Some 1
   \<and> map_option length
       (entries ''contexts'' (kubeconfig_document clusterName clusterEndpoint clusterCA)) = Some 1
   \<and> field ''current-context'' (kubeconfig_document clusterName clusterEndpoint clusterCA) =
        Some (JString ''aws'')
   \<and> map_option (map (field ''name''))
        (entries ''contexts'' (kubeconfig_document clusterName clusterEndpoint clusterCA)) =
        Some [field ''current-context'' (kubeconfig_document clusterName clusterEndpoint clusterCA)]"
proof -
  have exported: "map_of (exports (program config)) ''clusterKubeConfig'' =
      Some (ExportedDocument (kubeconfig ''eks-cluster''))"
    by (simp add: program_exports)
  have applied: "kubeconfig ''eks-cluster'' \<rho> =
       kubeconfig_document (text_of \<rho> (Attr ''eks-cluster'' ''name''))
         (text_of \<rho> (Attr ''eks-cluster'' ''endpoint''))
         (authority_of \<rho> (Attr ''eks-cluster'' ''certificateAuthority''))"
    by (simp add: kubeconfig_def)
  have callback:
    "map_option length (entries ''clusters'' (kubeconfig_document n e ca)) = Some 1"
    "map_option length (entries ''contexts'' (kubeconfig_document n e ca)) = Some 1"
    "field ''current-context'' (kubeconfig_document n e ca) = Some (JString ''aws'')"
    "map_option (map (field ''name'')) (entries ''contexts'' (kubeconfig_document n e ca)) =
       Some [field ''current-context'' (kubeconfig_document n e ca)]"
    for n e ca
    by (simp_all add: kubeconfig_document_def entries_def)
  have generated:
    "map_option length (entries ''clusters'' (kubeconfig ''eks-cluster'' \<rho>)) = Some 1"
    "map_option length (entries ''contexts'' (kubeconfig ''eks-cluster'' \<rho>)) = Some 1"
    "field ''current-context'' (kubeconfig ''eks-cluster'' \<rho>) = Some (JString ''aws'')"
    "map_option (map (field ''name'')) (entries ''contexts'' (kubeconfig ''eks-cluster'' \<rho>)) =
       Some [field ''current-context'' (kubeconfig ''eks-cluster'' \<rho>)]"
    unfolding applied by (rule callback)+
  from exported applied generated callback [of clusterName clusterEndpoint clusterCA]
  show ?thesis by blast
qed

text \<open>
  C7. The script exports exactly four values, in this order: clusterName (the name of the
  cluster), clusterArn (its ARN), clusterKubeConfig (the generated document) and vpcId (the
  id of the network). Once the cluster's properties have resolved, the one user entry of
  the document runs the command aws with the arguments eks, get-token, --cluster-name and
  the cluster's name, and the one cluster entry carries the cluster's endpoint as server
  and the data of its certificate authority.
\<close>

theorem four_exports:
  "exports (program config) =
     [(''clusterName'', ExportedOutput (Attr ''eks-cluster'' ''name'')),
      (''clusterArn'', ExportedOutput (Attr ''eks-cluster'' ''arn'')),
      (''clusterKubeConfig'', ExportedDocument (kubeconfig ''eks-cluster'')),
      (''vpcId'', ExportedOutput (Attr ''eks-vpc'' ''id''))]
   \<and> map logical_name (filter is_Cluster (resources (program config))) = [''eks-cluster'']
   \<and> map logical_name (filter is_Vpc (resources (program config))) = [''eks-vpc'']
   \<and> map_option (map (at_path [''user'', ''exec'', ''command'']))
        (entries ''users'' (kubeconfig ''eks-cluster'' \<rho>)) = Some [Some (JString ''aws'')]
   \<and> map_option (map (at_path [''user'', ''exec'', ''args'']))
        (entries ''users'' (kubeconfig ''eks-cluster'' \<rho>)) =
        Some [Some (JArray [JString ''eks'', JString ''get-token'', JString ''--cluster-name'',
                            JString (text_of \<rho> (Attr ''eks-cluster'' ''name''))])]
   \<and> map_option (map (at_path [''cluster'', ''server'']))
        (entries ''clusters'' (kubeconfig ''eks-cluster'' \<rho>)) =
        Some [Some (JString (text_of \<rho> (Attr ''eks-cluster'' ''endpoint'')))]
   \<and> map_option (map (at_path [''cluster'', ''certificate-authority-data'']))
        (entries ''clusters'' (kubeconfig ''eks-cluster'' \<rho>)) =
        Some [Some (JString
          (data (authority_of \<rho> (Attr ''eks-cluster'' ''certificateAuthority''))))]"
proof -
  have ex: "exports (program config) =
     [(''clusterName'', ExportedOutput (Attr ''eks-cluster'' ''name'')),
      (''clusterArn'', ExportedOutput (Attr ''eks-cluster'' ''arn'')),
      (''clusterKubeConfig'', ExportedDocument (kubeconfig ''eks-cluster'')),
      (''vpcId'', ExportedOutput (Attr ''eks-vpc'' ''id''))]"
    by (rule program_exports)
  have names:
    "map logical_name (filter is_Cluster (resources (program config))) = [''eks-cluster'']"
    "map logical_name (filter is_Vpc (resources (program config))) = [''eks-vpc'']"
    by (simp_all add: program_resources)
  have doc:
   "map_option (map (at_path [''user'', ''exec'', ''command'']))
        (entries ''users'' (kubeconfig ''eks-cluster'' \<rho>)) = Some [Some (JString ''aws'')]"
   "map_option (map (at_path [''user'', ''exec'', ''args'']))
        (entries ''users'' (kubeconfig ''eks-cluster'' \<rho>)) =
        Some [Some (JArray [JString ''eks'', JString ''get-token'', JString ''--cluster-name'',
                            JString (text_of \<rho> (Attr ''eks-cluster'' ''name''))])]"
   "map_option (map (at_path [''cluster'', ''server'']))
        (entries ''clusters'' (kubeconfig ''eks-cluster'' \<rho>)) =
        Some [Some (JString (text_of \<rho> (Attr ''eks-cluster'' ''endpoint'')))]"
   "map_option (map (at_path [''cluster'', ''certificate-authority-data'']))
        (entries ''clusters'' (kubeconfig ''eks-cluster'' \<rho>)) =
        Some [Some (JString
          (data (authority_of \<rho> (Attr ''eks-cluster'' ''certificateAuthority''))))]"
    by (simp_all add: kubeconfig_def kubeconfig_document_def entries_def)
  from ex names doc show ?thesis by blast
qed

section \<open>The declared resources\<close>

text \<open>
  C5 (as amended). Whatever the configuration, the script declares exactly fifteen
  resources: one network, six subnets (three private with mapPublicIpOnLaunch false, then
  three public with mapPublicIpOnLaunch true), two roles, four role-policy attachments (one
  on the cluster role and three on the worker role), one cluster and one node group.
\<close>

theorem declared_resources:
  "length (filter is_Vpc (resources (program config))) = 1
   \<and> map (\<lambda>r. (logical_name r, mapPublicIpOnLaunch (the_subnet r))) (subnets (program config)) =
       [(''private-subnet-0'', False), (''private-subnet-1'', False),
        (''private-subnet-2'', False), (''public-subnet-0'', True),
        (''public-subnet-1'', True), (''public-subnet-2'', True)]
   \<and> map logical_name (filter is_Role (resources (program config))) =
       [''eks-cluster-role'', ''worker-node-role'']
   \<and> map (\<lambda>r. role (the_attachment r)) (attachments (program config)) =
       [Attr ''eks-cluster-role'' ''name'', Attr ''worker-node-role'' ''name'',
        Attr ''worker-node-role'' ''name'', Attr ''worker-node-role'' ''name'']
   \<and> length (attachments (program config)) = 4
   \<and> length (clusters (program config)) = 1
   \<and> length (node_groups (program config)) = 1
   \<and> length (resources (program config)) = 15"
  by (simp add: program_resources subnets_def attachments_def clusters_def node_groups_def)

text \<open>
  C5 as stated fails: the attachments are four, not three. They are the cluster policy on
  the cluster role and the worker-node, CNI and container-registry policies on the worker
  role.
\<close>

theorem three_attachments_counterexample:
  "length (attachments (program no_config)) \<noteq> 3
   \<and> map logical_name (attachments (program no_config)) =
       [''cluster-role-policy-attachment'', ''worker-node-policy-attachment'',
        ''cni-policy-attachment'', ''container-registry-policy-attachment'']"
  by (simp add: program_resources attachments_def)

text \<open>
  C10. The subnetIds of the cluster's vpcConfig and the subnetIds of the node group are
  the same list: the ids of the three private subnets in declaration order, then the ids
  of the three public subnets in declaration order.
\<close>

theorem same_subnet_ids:
  "map (\<lambda>c. vpc_subnetIds (vpcConfig c)) (clusters (program config)) =
     [[Attr ''private-subnet-0'' ''id'', Attr ''private-subnet-1'' ''id'',
       Attr ''private-subnet-2'' ''id'', Attr ''public-subnet-0'' ''id'',
       Attr ''public-subnet-1'' ''id'', Attr ''public-subnet-2'' ''id'']]
   \<and> map subnetIds (node_groups (program config)) =
       map (\<lambda>c. vpc_subnetIds (vpcConfig c)) (clusters (program config))
   \<and> map subnetIds (node_groups (program config)) =
       [map (\<lambda>r. Attr (logical_name r) ''id'') (subnets (program config))]
   \<and> map (\<lambda>r. (logical_name r, cidrBlock (the_subnet r))) (subnets (program config)) =
       zip [''private-subnet-0'', ''private-subnet-1'', ''private-subnet-2'']
           privateSubnetCidrBlock
       @ zip [''public-subnet-0'', ''public-subnet-1'', ''public-subnet-2'']
           publicSubnetCidrBlock"
  by (simp add: program_resources subnets_def clusters_def node_groups_def
        privateSubnetCidrBlock_def publicSubnetCidrBlock_def)

section \<open>The address ranges of the subnets\<close>

lemma cidr_range_literals:
  "cidr_range ''10.0.1.0/24'' = Some (167772416, 167772671)"
  "cidr_range ''10.0.2.0/24'' = Some (167772672, 167772927)"
  "cidr_range ''10.0.3.0/24'' = Some (167772928, 167773183)"
  "cidr_range ''10.0.101.0/24'' = Some (167798016, 167798271)"
  "cidr_range ''10.0.102.0/24'' = Some (167798272, 167798527)"
  "cidr_range ''10.0.103.0/24'' = Some (167798528, 167798783)"
  "cidr_range ''10.0.0.0/16'' = Some (167772160, 167837695)"
  "cidr_range ''192.168.0.0/16'' = Some (3232235520, 3232301055)"
  by (simp_all add: cidr_range_def block_of_def decimal_def digit_value_def Let_def)

lemma subnet_blocks_disjoint:
  "pairwise_disjoint (privateSubnetCidrBlock @ publicSubnetCidrBlock)"
  by (simp add: privateSubnetCidrBlock_def publicSubnetCidrBlock_def cidr_disjoint_def
        cidr_range_literals)

lemma subnet_blocks_within:
  "all_within (privateSubnetCidrBlock @ publicSubnetCidrBlock) t =
     (case cidr_range t of
        None \<Rightarrow> False
      | Some y \<Rightarrow> fst y \<le> 167772416 \<and> 167798783 \<le> snd y)"
  by (auto simp add: all_within_def privateSubnetCidrBlock_def publicSubnetCidrBlock_def
        cidr_within_def cidr_range_literals split: option.splits)

text \<open>
  C4 (as amended). The three private and the three public ranges, which are the ranges of
  the six declared subnets, are pairwise disjoint. They lie within vpcNetworkCidr, the
  range of the declared network, when it is the default 10.0.0.0/16; for a configured
  value they do so exactly when that value denotes a block that spans 10.0.1.0 to
  10.0.103.255, which the script does not check.
\<close>

theorem subnet_ranges_disjoint_and_within_default:
  "pairwise_disjoint (privateSubnetCidrBlock @ publicSubnetCidrBlock)
   \<and> map (\<lambda>r. cidrBlock (the_subnet r)) (subnets (program config)) =
       privateSubnetCidrBlock @ publicSubnetCidrBlock
   \<and> map (\<lambda>r. vpc_cidrBlock (the_vpc r)) (filter is_Vpc (resources (program config))) =
       [vpcNetworkCidr config]
   \<and> (vpcNetworkCidr config = ''10.0.0.0/16'' \<longrightarrow>
        all_within (privateSubnetCidrBlock @ publicSubnetCidrBlock) (vpcNetworkCidr config))
   \<and> all_within (privateSubnetCidrBlock @ publicSubnetCidrBlock) (vpcNetworkCidr config) =
       (case cidr_range (vpcNetworkCidr config) of
          None \<Rightarrow> False
        | Some y \<Rightarrow> fst y \<le> 167772416 \<and> 167798783 \<le> snd y)"
proof -
  have blocks: "map (\<lambda>r. cidrBlock (the_subnet r)) (subnets (program config)) =
       privateSubnetCidrBlock @ publicSubnetCidrBlock"
    by (simp add: subnets_def program_resources privateSubnetCidrBlock_def
          publicSubnetCidrBlock_def)
  have network: "map (\<lambda>r. vpc_cidrBlock (the_vpc r))
       (filter is_Vpc (resources (program config))) = [vpcNetworkCidr config]"
    by (simp add: program_resources)
  have dflt: "vpcNetworkCidr config = ''10.0.0.0/16'' \<longrightarrow>
        all_within (privateSubnetCidrBlock @ publicSubnetCidrBlock) (vpcNetworkCidr config)"
    by (simp add: subnet_blocks_within cidr_range_literals)
  from subnet_blocks_disjoint blocks network dflt subnet_blocks_within
  show ?thesis by blast
qed

text \<open>With no key set the network range is the default, and the six ranges lie within it.\<close>

theorem subnet_ranges_within_default_witness:
  "vpcNetworkCidr no_config = ''10.0.0.0/16''
   \<and> all_within (privateSubnetCidrBlock @ publicSubnetCidrBlock) (vpcNetworkCidr no_config)
   \<and> pairwise_disjoint (privateSubnetCidrBlock @ publicSubnetCidrBlock)"
proof -
  have h: "vpcNetworkCidr no_config = ''10.0.0.0/16''"
    by (simp add: vpcNetworkCidr_def or_string_def no_config_def)
  from subnet_ranges_disjoint_and_within_default [of no_config] h show ?thesis by blast
qed

text \<open>
  C4 as stated fails for a configured network range: with vpcNetworkCidr set to
  192.168.0.0/16 the subnet ranges, which stay in 10.0.0.0/16, are not within it.
\<close>

theorem other_network_counterexample:
  "get other_network_config ''vpcNetworkCidr'' = Some ''192.168.0.0/16''
   \<and> vpcNetworkCidr other_network_config = ''192.168.0.0/16''
   \<and> \<not> all_within (privateSubnetCidrBlock @ publicSubnetCidrBlock)
         (vpcNetworkCidr other_network_config)
   \<and> \<not> cidr_within ''10.0.1.0/24'' ''192.168.0.0/16''"
proof -
  have g: "get other_network_config ''vpcNetworkCidr'' = Some ''192.168.0.0/16''"
    by (simp add: other_network_config_def)
  then have v: "vpcNetworkCidr other_network_config = ''192.168.0.0/16''"
    by (simp add: vpcNetworkCidr_def or_string_def)
  have n: "\<not> all_within (privateSubnetCidrBlock @ publicSubnetCidrBlock)
         (vpcNetworkCidr other_network_config)"
    by (simp add: v subnet_blocks_within cidr_range_literals)
  have w: "\<not> cidr_within ''10.0.1.0/24'' ''192.168.0.0/16''"
    by (simp add: cidr_within_def cidr_range_literals)
  from g v n w show ?thesis by blast
qed

end
